theory Spec2Isabelle
  imports Main "HOL-Library.Char_ord" "HOL-Library.List_Lexorder"
begin

unbundle bit_operations_syntax

section \<open>The disk cache of the Olist dashboard\<close>

text \<open>
  This theory embeds \<^verbatim>\<open>olist_dashboard/data/cache_manager.py\<close>: the class
  \<^verbatim>\<open>CacheManager\<close> (key generation, the pickle files under \<^verbatim>\<open>.streamlit_cache\<close>, the
  sweep and the statistics) and the wrapper \<^verbatim>\<open>smart_cache_query\<close>, together with
  \<^verbatim>\<open>BigQueryDataLoader.execute_query\<close> of \<^verbatim>\<open>data_loader.py\<close> as far as its result
  values are concerned.

  Conventions of the embedding.
  \<^item> A point in time is a \<^verbatim>\<open>datetime\<close>, written as an integer number of microseconds;
    the difference of two of them is always a \<^verbatim>\<open>timedelta\<close>. A TTL is an integer number
    of seconds, and \<^verbatim>\<open>timedelta(seconds=ttl)\<close> raises \<^verbatim>\<open>OverflowError\<close> outside the range
    of \<^verbatim>\<open>timedelta\<close>.
  \<^item> Every reading of \<^verbatim>\<open>datetime.now()\<close> is an argument of the function that reads it.
  \<^item> The cache directory is an association list from file names to nodes, in the order
    \<^verbatim>\<open>os.listdir\<close> reports them. A path \<^verbatim>\<open>os.path.join(cache_dir, name)\<close> is identified
    with \<open>name\<close>. The directory has one level: what lies inside a subdirectory or outside
    the cache directory is not part of the state.
  \<^item> A string is the list of the bytes of its UTF-8 encoding.
  \<^item> Every \<^verbatim>\<open>try\<close>/\<^verbatim>\<open>except\<close> of the source is a case distinction on a sum type whose
    left injection carries the exception.
  \<^item> Calls of \<^verbatim>\<open>logger.info\<close> and \<^verbatim>\<open>logger.error\<close> append an event to a log.
\<close>

subsection \<open>Python values, exceptions and log records\<close>

datatype exn =
    FileNotFoundError
  | IsADirectoryError
  | PathError               \<comment> \<open>another \<^verbatim>\<open>OSError\<close> of a path lookup: missing parent, name too long\<close>
  | ValueError              \<comment> \<open>embedded null byte\<close>
  | UnpicklingError
  | PicklingError
  | KeyError
  | OverflowError
  | QueryError string

text \<open>
  A value of type \<^verbatim>\<open>Optional[pl.DataFrame]\<close>: \<^verbatim>\<open>None\<close>, or a frame with its column names
  and its rows.
\<close>

datatype 'r pyval = PyNone | DataFrame (columns: "string list") (rows: "'r list")

text \<open>
  \<^verbatim>\<open>DataFrame.is_empty()\<close> holds when the frame has no rows. The source calls it only
  behind \<^verbatim>\<open>result is not None and\<close>.
\<close>

fun is_empty :: "'r pyval \<Rightarrow> bool" where
  "is_empty (DataFrame cols rws) = (rws = [])"

text \<open>The messages of the module's logger, one constructor per format string.\<close>

datatype event =
    Cached string           \<comment> \<open>info: Data cached to disk with key: ...\<close>
  | SaveFailed exn          \<comment> \<open>error: Failed to save to disk cache: ...\<close>
  | Loaded string           \<comment> \<open>info: Data loaded from disk cache with key: ...\<close>
  | LoadFailed exn          \<comment> \<open>error: Failed to load from disk cache: ...\<close>
  | Cleared nat             \<comment> \<open>info: Cleared n expired cache files\<close>
  | ClearFailed exn         \<comment> \<open>error: Failed to clear expired cache: ...\<close>
  | StatsFailed exn         \<comment> \<open>error: Failed to get cache stats: ...\<close>
  | QueryFailed exn         \<comment> \<open>error: Query execution failed: ...\<close>

subsection \<open>The cache directory\<close>

text \<open>
  The dictionary that \<^verbatim>\<open>save_to_disk_cache\<close> pickles. The readers use
  \<^verbatim>\<open>cache_data.get('ttl', CACHE_CONFIG["ttl"])\<close>, \<^verbatim>\<open>cache_data.get('timestamp')\<close> and
  \<^verbatim>\<open>cache_data['data']\<close>, so each key may be missing: \<open>None\<close> is a missing key (for the
  timestamp also the value \<^verbatim>\<open>None\<close>, which \<^verbatim>\<open>if timestamp and ...\<close> treats alike).
\<close>

record 'r cache_data =
  data :: "'r pyval option"
  timestamp :: "int option"
  ttl :: "int option"

text \<open>
  What \<^verbatim>\<open>os.listdir\<close> can report under a name:
  \<^item> \<open>Pickle cd\<close>, a regular file that unpickles to the dictionary \<open>cd\<close>;
  \<^item> \<open>Garbage\<close>, a regular file on which reading raises (an empty or truncated file,
    bytes that are no pickle, a pickle of something that is no such dictionary);
  \<^item> \<open>Subdir\<close>, a directory: \<^verbatim>\<open>open\<close> raises on it, and so does \<^verbatim>\<open>os.remove\<close>.
\<close>

datatype 'r node = Pickle "'r cache_data" | Garbage | Subdir

type_synonym 'r dir = "(string \<times> 'r node) list"

record 'r cache =
  files :: "'r dir"
  log :: "event list"

definition CACHE_CONFIG_ttl :: int where
  "CACHE_CONFIG_ttl = 3600"

text \<open>\<^verbatim>\<open>str.endswith\<close>.\<close>

definition endswith :: "string \<Rightarrow> string \<Rightarrow> bool" where
  "endswith s suffix =
     (length suffix \<le> length s \<and> drop (length s - length suffix) s = suffix)"

text \<open>\<^verbatim>\<open>with open(path, 'rb') as f: cache_data = pickle.load(f)\<close>\<close>

definition open_rb_load :: "'r dir \<Rightarrow> string \<Rightarrow> exn + 'r cache_data" where
  "open_rb_load fs path =
     (case map_of fs path of
        None \<Rightarrow> Inl FileNotFoundError
      | Some Subdir \<Rightarrow> Inl IsADirectoryError
      | Some Garbage \<Rightarrow> Inl UnpicklingError
      | Some (Pickle cd) \<Rightarrow> Inr cd)"

text \<open>\<^verbatim>\<open>os.remove(path)\<close>\<close>

definition os_remove :: "string \<Rightarrow> 'r dir \<Rightarrow> exn + 'r dir" where
  "os_remove path fs =
     (case map_of fs path of
        None \<Rightarrow> Inl FileNotFoundError
      | Some Subdir \<Rightarrow> Inl IsADirectoryError
      | Some _ \<Rightarrow> Inr (filter (\<lambda>entry. fst entry \<noteq> path) fs))"

text \<open>
  Replacing the content of a regular file, or creating it. A new name is listed last.
\<close>

fun write_file :: "string \<Rightarrow> 'r node \<Rightarrow> 'r dir \<Rightarrow> 'r dir" where
  "write_file path n [] = [(path, n)]"
| "write_file path n ((name, m) # fs) =
     (if name = path then (path, n) # fs else (name, m) # write_file path n fs)"

text \<open>
  The names under which a file can be created in the cache directory: no null byte, no
  path separator, and at most 255 bytes, the limit of the usual file systems.
\<close>

definition plain_file_name :: "string \<Rightarrow> bool" where
  "plain_file_name name =
     (CHR 0x00 \<notin> set name \<and> CHR ''/'' \<notin> set name \<and> length name \<le> 255)"

text \<open>
  \<^verbatim>\<open>open(path, 'wb')\<close>. A name with a null byte is refused with \<^verbatim>\<open>ValueError\<close>, and a
  name that is too long fails. A name with a separator leads out of the one level of
  the state: the lookup is taken to fail, as it does when the parent directory is
  missing, and the properties below that depend on a save are stated for plain file
  names only. On a directory \<^verbatim>\<open>open\<close> raises. Otherwise the file is created or
  truncated to length zero at once, and an empty file does not unpickle.
\<close>

definition open_wb :: "string \<Rightarrow> 'r dir \<Rightarrow> exn + 'r dir" where
  "open_wb path fs =
     (if CHR 0x00 \<in> set path then Inl ValueError
      else if CHR ''/'' \<in> set path \<or> length path > 255 then Inl PathError
      else
        (case map_of fs path of
           Some Subdir \<Rightarrow> Inl IsADirectoryError
         | _ \<Rightarrow> Inr (write_file path Garbage fs)))"

text \<open>
  \<^verbatim>\<open>pickle.dump(cache_data, f)\<close> into the file just opened. The flag \<open>dump_ok\<close> tells
  whether the dump runs to its end; when it raises (a value that cannot be pickled, a
  full disk) the file keeps the bytes written so far.
\<close>

definition pickle_dump :: "bool \<Rightarrow> 'r cache_data \<Rightarrow> string \<Rightarrow> 'r dir \<Rightarrow> exn + 'r dir" where
  "pickle_dump dump_ok cd path fs =
     (if dump_ok then Inr (write_file path (Pickle cd) fs) else Inl PicklingError)"

subsection \<open>hashlib.md5\<close>

text \<open>
  The MD5 digest of RFC 1321 on a list of bytes, with 32-bit words as integers reduced
  modulo \<open>2^32\<close>, and its lower-case hexadecimal form.
\<close>

definition md5_K :: "int list" where
  "md5_K =
     [
      3614090360, 3905402710, 606105819, 3250441966,
      4118548399, 1200080426, 2821735955, 4249261313,
      1770035416, 2336552879, 4294925233, 2304563134,
      1804603682, 4254626195, 2792965006, 1236535329,
      4129170786, 3225465664, 643717713, 3921069994,
      3593408605, 38016083, 3634488961, 3889429448,
      568446438, 3275163606, 4107603335, 1163531501,
      2850285829, 4243563512, 1735328473, 2368359562,
      4294588738, 2272392833, 1839030562, 4259657740,
      2763975236, 1272893353, 4139469664, 3200236656,
      681279174, 3936430074, 3572445317, 76029189,
      3654602809, 3873151461, 530742520, 3299628645,
      4096336452, 1126891415, 2878612391, 4237533241,
      1700485571, 2399980690, 4293915773, 2240044497,
      1873313359, 4264355552, 2734768916, 1309151649,
      4149444226, 3174756917, 718787259, 3951481745]"

definition md5_s :: "nat list" where
  "md5_s =
     [
      7, 12, 17, 22, 7, 12, 17, 22, 7, 12, 17, 22, 7, 12, 17, 22,
      5, 9, 14, 20, 5, 9, 14, 20, 5, 9, 14, 20, 5, 9, 14, 20,
      4, 11, 16, 23, 4, 11, 16, 23, 4, 11, 16, 23, 4, 11, 16, 23,
      6, 10, 15, 21, 6, 10, 15, 21, 6, 10, 15, 21, 6, 10, 15, 21]"

definition rotl32 :: "int \<Rightarrow> nat \<Rightarrow> int" where
  "rotl32 x s = (x * 2 ^ s) mod 4294967296 + x div 2 ^ (32 - s)"

definition not32 :: "int \<Rightarrow> int" where
  "not32 x = 4294967295 - x"

definition md5_step ::
  "int list \<Rightarrow> int \<times> int \<times> int \<times> int \<Rightarrow> nat \<Rightarrow> int \<times> int \<times> int \<times> int" where
  "md5_step M st i =
     (case st of (A, B, C, D) \<Rightarrow>
        let F = (if i < 16 then (B AND C) OR (not32 B AND D)
                 else if i < 32 then (D AND B) OR (not32 D AND C)
                 else if i < 48 then B XOR C XOR D
                 else C XOR (B OR not32 D));
            g = (if i < 16 then i
                 else if i < 32 then (5 * i + 1) mod 16
                 else if i < 48 then (3 * i + 5) mod 16
                 else (7 * i) mod 16);
            F' = (F + A + md5_K ! i + M ! g) mod 4294967296
        in (D, (B + rotl32 F' (md5_s ! i)) mod 4294967296, B, C))"

fun le_word :: "int list \<Rightarrow> int" where
  "le_word [] = 0"
| "le_word (b # bs) = b + 256 * le_word bs"

fun words_of :: "nat \<Rightarrow> int list \<Rightarrow> int list" where
  "words_of 0 bs = []"
| "words_of (Suc n) bs = le_word (take 4 bs) # words_of n (drop 4 bs)"

definition md5_block ::
  "int \<times> int \<times> int \<times> int \<Rightarrow> int list \<Rightarrow> int \<times> int \<times> int \<times> int" where
  "md5_block h block =
     (case h of (a0, b0, c0, d0) \<Rightarrow>
      case foldl (md5_step (words_of 16 block)) h [0..<64] of (A, B, C, D) \<Rightarrow>
        ((a0 + A) mod 4294967296, (b0 + B) mod 4294967296,
         (c0 + C) mod 4294967296, (d0 + D) mod 4294967296))"

fun md5_blocks ::
  "nat \<Rightarrow> int \<times> int \<times> int \<times> int \<Rightarrow> int list \<Rightarrow> int \<times> int \<times> int \<times> int" where
  "md5_blocks 0 h bs = h"
| "md5_blocks (Suc n) h bs = md5_blocks n (md5_block h (take 64 bs)) (drop 64 bs)"

fun le_bytes :: "nat \<Rightarrow> int \<Rightarrow> int list" where
  "le_bytes 0 x = []"
| "le_bytes (Suc n) x = x mod 256 # le_bytes n (x div 256)"

definition md5_pad :: "int list \<Rightarrow> int list" where
  "md5_pad bs =
     bs @ [128] @ replicate ((119 - length bs mod 64) mod 64) 0 @
     le_bytes 8 (8 * int (length bs))"

definition hex_digit :: "int \<Rightarrow> char" where
  "hex_digit d = ''0123456789abcdef'' ! nat d"

definition hexdigest :: "int list \<Rightarrow> string" where
  "hexdigest bs = concat (map (\<lambda>b. [hex_digit (b div 16), hex_digit (b mod 16)]) bs)"

text \<open>\<^verbatim>\<open>hashlib.md5(s.encode()).hexdigest()\<close>\<close>

definition md5 :: "string \<Rightarrow> string" where
  "md5 s =
     (let bs = md5_pad (map (\<lambda>c. int (of_char c :: nat)) s)
      in case md5_blocks (length bs div 64)
                (1732584193, 4023233417, 2562383102, 271733878) bs of
           (a, b, c, d) \<Rightarrow>
             hexdigest (le_bytes 4 a @ le_bytes 4 b @ le_bytes 4 c @ le_bytes 4 d))"

subsection \<open>Arguments and their printed form\<close>

text \<open>
  The arguments of a cached operation: \<^verbatim>\<open>None\<close>, booleans, integers, strings, and
  tuples, lists and dictionaries of these. A dictionary is the list of its items in
  insertion order, which is the order in which Python prints them.
\<close>

datatype pyarg =
    NoneArg
  | BoolArg bool
  | IntArg int
  | StrArg string
  | TupleArg "pyarg list"
  | ListArg "pyarg list"
  | DictArg "(pyarg \<times> pyarg) list"

text \<open>\<^verbatim>\<open>sep.join(xs)\<close>\<close>

definition join :: "string \<Rightarrow> string list \<Rightarrow> string" where
  "join sep xs = concat (case xs of [] \<Rightarrow> [] | y # ys \<Rightarrow> y # map (\<lambda>z. sep @ z) ys)"

text \<open>The decimal digits of a natural number, and \<^verbatim>\<open>repr\<close> of an integer.\<close>

fun decimal :: "nat \<Rightarrow> string" where
  "decimal n =
     (if n < 10 then [''0123456789'' ! n]
      else decimal (n div 10) @ [''0123456789'' ! (n mod 10)])"

definition repr_int :: "int \<Rightarrow> string" where
  "repr_int i = (if i < 0 then CHR ''-'' # decimal (nat (- i)) else decimal (nat i))"

text \<open>
  \<^verbatim>\<open>repr\<close> of a string: between double quotes when the string has a single quote and no
  double quote, between single quotes otherwise; the quote and the backslash are
  escaped, and so are the control characters. Bytes outside ASCII belong to printable
  characters and are copied.
\<close>

definition repr_char :: "char \<Rightarrow> char \<Rightarrow> string" where
  "repr_char quote ch =
     (if ch = quote \<or> ch = CHR 0x5C then [CHR 0x5C, ch]
      else if ch = CHR 0x09 then [CHR 0x5C, CHR ''t'']
      else if ch = CHR 0x0A then [CHR 0x5C, CHR ''n'']
      else if ch = CHR 0x0D then [CHR 0x5C, CHR ''r'']
      else if (of_char ch :: nat) < 32 \<or> ch = CHR 0x7F
        then [CHR 0x5C, CHR ''x'', hex_digit (int (of_char ch :: nat) div 16),
              hex_digit (int (of_char ch :: nat) mod 16)]
      else [ch])"

definition repr_str :: "string \<Rightarrow> string" where
  "repr_str s =
     (let quote = (if CHR 0x27 \<in> set s \<and> CHR 0x22 \<notin> set s then CHR 0x22 else CHR 0x27)
      in quote # concat (map (repr_char quote) s) @ [quote])"

text \<open>
  \<^verbatim>\<open>repr\<close> of an argument. A tuple of one element is printed with a trailing comma.
\<close>

fun repr :: "pyarg \<Rightarrow> string" where
  "repr NoneArg = ''None''"
| "repr (BoolArg b) = (if b then ''True'' else ''False'')"
| "repr (IntArg i) = repr_int i"
| "repr (StrArg s) = repr_str s"
| "repr (TupleArg xs) =
     (if length xs = 1 then ''('' @ join '', '' (map repr xs) @ '',)''
      else ''('' @ join '', '' (map repr xs) @ '')'')"
| "repr (ListArg xs) = ''['' @ join '', '' (map repr xs) @ '']''"
| "repr (DictArg items) =
     ''{'' @ join '', '' (map (\<lambda>item. repr (fst item) @ '': '' @ repr (snd item)) items) @ ''}''"

subsection \<open>CacheManager\<close>

text \<open>
  \<^verbatim>\<open>_generate_cache_key(*args, **kwargs)\<close>:
  \<^verbatim>\<open>key_string = str(args) + str(sorted(kwargs.items()))\<close>, then
  \<^verbatim>\<open>hashlib.md5(key_string.encode()).hexdigest()\<close>.
  \<open>args\<close> is the tuple of the positional arguments. \<open>kwargs\<close> is the dictionary of the
  keyword arguments as the list of its items in insertion order. The names of a
  dictionary are distinct, so comparing two items is comparing their names, and
  \<^verbatim>\<open>sorted\<close> is the stable sort by name.
\<close>

definition key_string :: "pyarg list \<Rightarrow> (string \<times> pyarg) list \<Rightarrow> string" where
  "key_string args kwargs =
     repr (TupleArg args) @
     repr (ListArg (map (\<lambda>item. TupleArg [StrArg (fst item), snd item])
                      (sort_key fst kwargs)))"

definition generate_cache_key :: "pyarg list \<Rightarrow> (string \<times> pyarg) list \<Rightarrow> string" where
  "generate_cache_key args kwargs = md5 (key_string args kwargs)"

text \<open>\<^verbatim>\<open>_get_cache_file_path\<close>\<close>

definition get_cache_file_path :: "string \<Rightarrow> string" where
  "get_cache_file_path cache_key = cache_key @ ''.pkl''"

text \<open>\<^verbatim>\<open>ttl_seconds = cache_data.get('ttl', CACHE_CONFIG["ttl"])\<close>\<close>

definition ttl_seconds_of :: "'r cache_data \<Rightarrow> int" where
  "ttl_seconds_of cd = (case ttl cd of None \<Rightarrow> CACHE_CONFIG_ttl | Some t \<Rightarrow> t)"

text \<open>
  \<^verbatim>\<open>timedelta(seconds=s)\<close>, in microseconds. The constructor splits \<open>s\<close> into days and
  a rest and raises \<^verbatim>\<open>OverflowError\<close> when the number of days has a magnitude above
  999999999.
\<close>

definition timedelta_seconds :: "int \<Rightarrow> exn + int" where
  "timedelta_seconds s =
     (if - 999999999 \<le> s div 86400 \<and> s div 86400 \<le> 999999999
      then Inr (s * 1000000) else Inl OverflowError)"

text \<open>
  The test of \<^verbatim>\<open>load_from_disk_cache\<close> and of \<^verbatim>\<open>clear_expired_cache\<close>:
  \<^verbatim>\<open>timestamp and datetime.now() - timestamp > timedelta(seconds=ttl_seconds)\<close>.
  Without a timestamp the right operand of \<^verbatim>\<open>and\<close> is not evaluated.
\<close>

definition expired :: "int \<Rightarrow> 'r cache_data \<Rightarrow> exn + bool" where
  "expired now cd =
     (case timestamp cd of
        None \<Rightarrow> Inr False
      | Some ts \<Rightarrow>
          (case timedelta_seconds (ttl_seconds_of cd) of
             Inl e \<Rightarrow> Inl e
           | Inr delta \<Rightarrow> Inr (now - ts > delta)))"

text \<open>
  The test of \<^verbatim>\<open>get_cache_stats\<close>:
  \<^verbatim>\<open>timestamp and datetime.now() - timestamp <= timedelta(seconds=ttl_seconds)\<close>
\<close>

definition unexpired :: "int \<Rightarrow> 'r cache_data \<Rightarrow> exn + bool" where
  "unexpired now cd =
     (case timestamp cd of
        None \<Rightarrow> Inr False
      | Some ts \<Rightarrow>
          (case timedelta_seconds (ttl_seconds_of cd) of
             Inl e \<Rightarrow> Inl e
           | Inr delta \<Rightarrow> Inr (now - ts \<le> delta)))"

text \<open>
  \<^verbatim>\<open>ttl_seconds or CACHE_CONFIG["ttl"]\<close>: the default stands in for \<^verbatim>\<open>None\<close> and for \<open>0\<close>.
\<close>

definition ttl_or_default :: "int option \<Rightarrow> int" where
  "ttl_or_default ttl_seconds =
     (case ttl_seconds of
        None \<Rightarrow> CACHE_CONFIG_ttl
      | Some t \<Rightarrow> if t = 0 then CACHE_CONFIG_ttl else t)"

text \<open>
  \<^verbatim>\<open>save_to_disk_cache(key, data, ttl_seconds)\<close>. \<open>now\<close> is the clock reading stored as
  the timestamp. The file is opened under its final name and the dictionary is dumped
  into it; any exception ends in \<^verbatim>\<open>return False\<close>.
\<close>

definition save_to_disk_cache ::
  "int \<Rightarrow> bool \<Rightarrow> string \<Rightarrow> 'r pyval \<Rightarrow> int option \<Rightarrow> 'r cache \<Rightarrow> bool \<times> 'r cache" where
  "save_to_disk_cache now dump_ok key v ttl_seconds c =
     (let cache_file = get_cache_file_path key;
          cd = \<lparr>data = Some v, timestamp = Some now, ttl = Some (ttl_or_default ttl_seconds)\<rparr>
      in case open_wb cache_file (files c) of
           Inl e \<Rightarrow> (False, c\<lparr>log := log c @ [SaveFailed e]\<rparr>)
         | Inr fs1 \<Rightarrow>
             (case pickle_dump dump_ok cd cache_file fs1 of
                Inl e \<Rightarrow> (False, c\<lparr>files := fs1, log := log c @ [SaveFailed e]\<rparr>)
              | Inr fs2 \<Rightarrow> (True, c\<lparr>files := fs2, log := log c @ [Cached key]\<rparr>)))"

text \<open>
  \<^verbatim>\<open>load_from_disk_cache(key)\<close>. \<open>now\<close> is the clock reading of the expiry test. The
  result \<open>PyNone\<close> is Python's \<^verbatim>\<open>None\<close>. An exception anywhere, the one of the expiry
  test included, is logged and answered by \<^verbatim>\<open>None\<close>. The message "Data loaded" is logged
  before \<^verbatim>\<open>cache_data['data']\<close> is looked up.
\<close>

definition load_from_disk_cache :: "int \<Rightarrow> string \<Rightarrow> 'r cache \<Rightarrow> 'r pyval \<times> 'r cache" where
  "load_from_disk_cache now key c =
     (let cache_file = get_cache_file_path key in
      if map_of (files c) cache_file = None then (PyNone, c)
      else
        (case open_rb_load (files c) cache_file of
           Inl e \<Rightarrow> (PyNone, c\<lparr>log := log c @ [LoadFailed e]\<rparr>)
         | Inr cd \<Rightarrow>
             (case expired now cd of
                Inl e \<Rightarrow> (PyNone, c\<lparr>log := log c @ [LoadFailed e]\<rparr>)
              | Inr is_expired \<Rightarrow>
                  if is_expired then
                    (case os_remove cache_file (files c) of
                       Inl e \<Rightarrow> (PyNone, c\<lparr>log := log c @ [LoadFailed e]\<rparr>)
                     | Inr fs' \<Rightarrow> (PyNone, c\<lparr>files := fs'\<rparr>))
                  else
                    (case data cd of
                       None \<Rightarrow> (PyNone, c\<lparr>log := log c @ [Loaded key, LoadFailed KeyError]\<rparr>)
                     | Some v \<Rightarrow> (v, c\<lparr>log := log c @ [Loaded key]\<rparr>)))))"

text \<open>
  \<^verbatim>\<open>clear_expired_cache\<close>. \<open>sweep_try\<close> is the body of the inner \<^verbatim>\<open>try\<close> for one file
  name, the expiry test included; \<open>sweep_entry\<close> adds its handler
  \<^verbatim>\<open>except Exception: os.remove(file_path); cleared_count += 1\<close>; and \<open>sweep_loop\<close> is the
  \<^verbatim>\<open>for\<close> loop over the names listed before the loop starts. An exception that leaves
  the handler leaves the loop. The function \<open>now\<close> gives the clock reading taken while a
  name is examined. Both return the directory and the number to add to
  \<^verbatim>\<open>cleared_count\<close>.
\<close>

definition sweep_try :: "int \<Rightarrow> string \<Rightarrow> 'r dir \<Rightarrow> exn + ('r dir \<times> nat)" where
  "sweep_try now name fs =
     (case open_rb_load fs name of
        Inl e \<Rightarrow> Inl e
      | Inr cd \<Rightarrow>
          (case expired now cd of
             Inl e \<Rightarrow> Inl e
           | Inr is_expired \<Rightarrow>
               if is_expired then
                 (case os_remove name fs of
                    Inl e \<Rightarrow> Inl e
                  | Inr fs' \<Rightarrow> Inr (fs', 1))
               else Inr (fs, 0)))"

definition sweep_entry :: "int \<Rightarrow> string \<Rightarrow> 'r dir \<Rightarrow> exn + ('r dir \<times> nat)" where
  "sweep_entry now name fs =
     (case sweep_try now name fs of
        Inr r \<Rightarrow> Inr r
      | Inl _ \<Rightarrow>
          (case os_remove name fs of
             Inl e \<Rightarrow> Inl e
           | Inr fs' \<Rightarrow> Inr (fs', 1)))"

fun sweep_loop ::
  "(string \<Rightarrow> int) \<Rightarrow> string list \<Rightarrow> 'r dir \<Rightarrow> nat \<Rightarrow> 'r dir \<times> (exn + nat)" where
  "sweep_loop now [] fs cleared_count = (fs, Inr cleared_count)"
| "sweep_loop now (name # names) fs cleared_count =
     (case sweep_entry (now name) name fs of
        Inl e \<Rightarrow> (fs, Inl e)
      | Inr (fs', k) \<Rightarrow> sweep_loop now names fs' (cleared_count + k))"

text \<open>\<^verbatim>\<open>[f for f in os.listdir(self.cache_dir) if f.endswith('.pkl')]\<close>\<close>

definition listdir_pkl :: "'r dir \<Rightarrow> string list" where
  "listdir_pkl fs = filter (\<lambda>f. endswith f ''.pkl'') (map fst fs)"

text \<open>
  The function returns nothing; the count is only logged, and only when the loop ran to
  its end.
\<close>

definition clear_expired_cache :: "(string \<Rightarrow> int) \<Rightarrow> 'r cache \<Rightarrow> 'r cache" where
  "clear_expired_cache now c =
     (case sweep_loop now (listdir_pkl (files c)) (files c) 0 of
        (fs', Inr cleared_count) \<Rightarrow>
          c\<lparr>files := fs',
            log := log c @ (if cleared_count > 0 then [Cleared cleared_count] else [])\<rparr>
      | (fs', Inl e) \<Rightarrow> c\<lparr>files := fs', log := log c @ [ClearFailed e]\<rparr>)"

text \<open>
  \<^verbatim>\<open>get_cache_stats\<close>. \<open>getsize\<close> is \<^verbatim>\<open>os.path.getsize\<close>, which may raise; \<open>sum_sizes\<close> is
  \<^verbatim>\<open>sum(os.path.getsize(...) for f in cache_files)\<close>, outside any per-entry \<^verbatim>\<open>try\<close>, so
  its first exception ends the whole function in \<^verbatim>\<open>return {}\<close>, here \<open>None\<close>.
  \<open>count_valid\<close> is the loop that counts \<^verbatim>\<open>valid_files\<close>; a file on which reading or the
  expiry test raises is skipped by \<^verbatim>\<open>except Exception: continue\<close>. The result holds the
  two counts and the size in bytes, from which the source derives \<^verbatim>\<open>total_size_mb\<close> and
  \<^verbatim>\<open>hit_rate\<close> in floating point.
\<close>

record stats =
  total_files :: nat
  valid_files :: nat
  total_size :: nat

fun sum_sizes :: "(string \<Rightarrow> exn + nat) \<Rightarrow> string list \<Rightarrow> exn + nat" where
  "sum_sizes getsize [] = Inr 0"
| "sum_sizes getsize (f # fs) =
     (case getsize f of
        Inl e \<Rightarrow> Inl e
      | Inr n \<Rightarrow>
          (case sum_sizes getsize fs of
             Inl e \<Rightarrow> Inl e
           | Inr m \<Rightarrow> Inr (n + m)))"

fun count_valid :: "(string \<Rightarrow> int) \<Rightarrow> string list \<Rightarrow> 'r dir \<Rightarrow> nat \<Rightarrow> nat" where
  "count_valid now [] fs valid = valid"
| "count_valid now (name # names) fs valid =
     (case open_rb_load fs name of
        Inl _ \<Rightarrow> count_valid now names fs valid
      | Inr cd \<Rightarrow>
          (case unexpired (now name) cd of
             Inl _ \<Rightarrow> count_valid now names fs valid
           | Inr b \<Rightarrow> count_valid now names fs (if b then valid + 1 else valid)))"

definition get_cache_stats ::
  "(string \<Rightarrow> int) \<Rightarrow> (string \<Rightarrow> exn + nat) \<Rightarrow> 'r cache \<Rightarrow> stats option \<times> 'r cache" where
  "get_cache_stats now getsize c =
     (let cache_files = listdir_pkl (files c)
      in case sum_sizes getsize cache_files of
           Inl e \<Rightarrow> (None, c\<lparr>log := log c @ [StatsFailed e]\<rparr>)
         | Inr bytes \<Rightarrow>
             (Some \<lparr>total_files = length cache_files,
                    valid_files = count_valid now cache_files (files c) 0,
                    total_size = bytes\<rparr>, c))"

subsection \<open>BigQueryDataLoader.execute\_query\<close>

text \<open>
  The result of \<^verbatim>\<open>execute_query\<close>, without the memoization of its decorator: \<^verbatim>\<open>None\<close>, a
  polars frame, or with \<^verbatim>\<open>use_polars=False\<close> a pandas frame.
  \<open>client_ok\<close> tells whether \<^verbatim>\<open>_self.client\<close> is set. \<open>job\<close> is the outcome of running the
  query and converting the result: an exception, or the columns and rows of the pandas
  frame. A pandas frame is \<^verbatim>\<open>empty\<close> when it has no rows or no columns, and
  \<^verbatim>\<open>pl.DataFrame()\<close> has neither. Every failure is answered by \<^verbatim>\<open>return None\<close>.
\<close>

datatype 'r query_result =
    NoResult
  | PolarsFrame "string list" "'r list"
  | PandasFrame "string list" "'r list"

definition execute_query ::
  "bool \<Rightarrow> bool \<Rightarrow> exn + (string list \<times> 'r list) \<Rightarrow> 'r query_result" where
  "execute_query client_ok use_polars job =
     (if \<not> client_ok then NoResult
      else
        (case job of
           Inl e \<Rightarrow> NoResult
         | Inr (cols, rws) \<Rightarrow>
             if use_polars then
               (if rws = [] \<or> cols = [] then PolarsFrame [] [] else PolarsFrame cols rws)
             else PandasFrame cols rws))"

subsection \<open>smart\_cache\_query\<close>

text \<open>
  \<^verbatim>\<open>query_func\<close> is any callable: it is a function of its keyword arguments and of the
  state \<open>'w\<close> of everything outside the cache (the warehouse, a call counter), and it
  returns a frame or \<^verbatim>\<open>None\<close>, or raises. The triple \<open>io\<close> holds the clock reading of the
  load, the clock reading of the save, and whether the dump of the save runs to its end.
\<close>

type_synonym ('k, 'r, 'w) query_func = "'k \<Rightarrow> 'w \<Rightarrow> (exn + 'r pyval) \<times> 'w"

definition smart_cache_query ::
  "('k, 'r, 'w) query_func \<Rightarrow> string \<Rightarrow> int option \<Rightarrow> 'k \<Rightarrow> int \<times> int \<times> bool \<Rightarrow>
     'r cache \<times> 'w \<Rightarrow> 'r pyval \<times> 'r cache \<times> 'w" where
  "smart_cache_query query_func cache_key ttl_arg kwargs io s =
     (case io of (t_load, t_save, dump_ok) \<Rightarrow>
      case s of (c, w) \<Rightarrow>
      case load_from_disk_cache t_load cache_key c of (cached_data, c1) \<Rightarrow>
        if cached_data \<noteq> PyNone then (cached_data, c1, w)
        else
          (case query_func kwargs w of
             (Inl e, w') \<Rightarrow> (PyNone, c1\<lparr>log := log c1 @ [QueryFailed e]\<rparr>, w')
           | (Inr result, w') \<Rightarrow>
               if result \<noteq> PyNone \<and> \<not> is_empty result
               then (result, snd (save_to_disk_cache t_save dump_ok cache_key result ttl_arg c1), w')
               else (result, c1, w')))"

text \<open>
  A call counter around a query function, and a caller that repeats the same fetch, one
  call for each element of \<open>ios\<close>, and collects the results.
\<close>

definition counted :: "('k, 'r, 'w) query_func \<Rightarrow> ('k, 'r, 'w \<times> nat) query_func" where
  "counted query_func kwargs wn =
     (case wn of (w, n) \<Rightarrow>
      case query_func kwargs w of (r, w') \<Rightarrow> (r, (w', Suc n)))"

fun fetch_seq ::
  "('k, 'r, 'w) query_func \<Rightarrow> string \<Rightarrow> int option \<Rightarrow> 'k \<Rightarrow> (int \<times> int \<times> bool) list \<Rightarrow>
     'r cache \<times> 'w \<Rightarrow> 'r pyval list \<times> 'r cache \<times> 'w" where
  "fetch_seq query_func cache_key ttl_arg kwargs [] s = ([], s)"
| "fetch_seq query_func cache_key ttl_arg kwargs (io # ios) s =
     (case smart_cache_query query_func cache_key ttl_arg kwargs io s of
        (r, s') \<Rightarrow>
          (case fetch_seq query_func cache_key ttl_arg kwargs ios s' of
             (rs, s'') \<Rightarrow> (r # rs, s'')))"

section \<open>Properties\<close>

subsection \<open>Files of the directory\<close>

lemma map_of_write_file:
  "map_of (write_file path n fs) q = (if q = path then Some n else map_of fs q)"
  by (induction fs) auto

lemma map_of_remove:
  "map_of (filter (\<lambda>entry. fst entry \<noteq> path) fs) q =
     (if q = path then None else map_of fs q)"
  by (induction fs) auto

lemma open_wb_plain:
  assumes "plain_file_name path" and "map_of fs path \<noteq> Some Subdir"
  shows "open_wb path fs = Inr (write_file path Garbage fs)"
  using assms
  by (auto simp add: open_wb_def plain_file_name_def split: option.splits node.splits)

lemma open_wb_refused:
  assumes "\<not> (plain_file_name path \<and> map_of fs path \<noteq> Some Subdir)"
  shows "\<exists>e. open_wb path fs = Inl e"
  using assms
  by (auto simp add: open_wb_def plain_file_name_def split: option.splits node.splits)

lemma save_to_disk_cache_stored:
  assumes "plain_file_name (get_cache_file_path key)"
    and "map_of (files c) (get_cache_file_path key) \<noteq> Some Subdir"
  shows "map_of (files (snd (save_to_disk_cache now True key v ttl_arg c)))
           (get_cache_file_path key) =
         Some (Pickle \<lparr>data = Some v, timestamp = Some now,
                       ttl = Some (ttl_or_default ttl_arg)\<rparr>)"
  by (simp add: save_to_disk_cache_def open_wb_plain [OF assms] pickle_dump_def
      map_of_write_file Let_def)


subsection \<open>Key generation\<close>

text \<open>
  The digest and the printed form agree with Python on the test vectors of RFC 1321 and
  on a tuple that has a negative number, both kinds of quote, a backslash and control
  characters in it.
\<close>

lemma md5_test_vectors:
  "md5 [] = ''d41d8cd98f00b204e9800998ecf8427e''"
  "md5 ''abc'' = ''900150983cd24fb0d6963f7d28e17f72''"
  "md5 ''message digest'' = ''f96b697d7cb7938d525a2f31aaf161d0''"
  by code_simp+

lemma generate_cache_key_example:
  "generate_cache_key
     [StrArg (''it'' @ [CHR 0x27] @ ''s''), IntArg (- 12), NoneArg, BoolArg True,
      ListArg [IntArg 1, IntArg 2], StrArg (''a'' @ [CHR 0x22] @ ''b''),
      StrArg (''q'' @ [CHR 0x27, CHR 0x22, CHR 0x0A, CHR 0x01, CHR 0x5C])] [] =
   ''02c08c16ace52e01a7e50ed137676438''"
  by code_simp

lemma sort_key_items_unique:
  assumes "distinct (map fst xs)" and "distinct (map fst ys)" and "set xs = set ys"
  shows "sort_key fst xs = sort_key fst ys"
proof (rule map_sorted_distinct_set_unique [where f = fst])
  from assms(1) have "inj_on fst (set xs)"
    by (simp add: distinct_map)
  with assms(3) show "inj_on fst (set (sort_key fst xs) \<union> set (sort_key fst ys))"
    by simp
  show "sorted (map fst (sort_key fst xs))" and "sorted (map fst (sort_key fst ys))"
    by simp_all
  from assms(1) show "distinct (map fst (sort_key fst xs))"
    by (simp add: distinct_map)
  from assms(2) show "distinct (map fst (sort_key fst ys))"
    by (simp add: distinct_map)
  from assms(3) show "set (sort_key fst xs) = set (sort_key fst ys)"
    by simp
qed

text \<open>
  Claim C2, as stated, fails. The dictionaries \<open>{'a': 1, 'b': 2}\<close> and
  \<open>{'b': 2, 'a': 1}\<close> have the same items and are equal in Python, but as a positional
  argument they print in their insertion order, and the two keys differ.
\<close>

theorem generate_cache_key_equal_arguments_counterexample:
  "set [(StrArg ''a'', IntArg 1), (StrArg ''b'', IntArg 2)] =
   set [(StrArg ''b'', IntArg 2), (StrArg ''a'', IntArg 1)] \<and>
   generate_cache_key [DictArg [(StrArg ''a'', IntArg 1), (StrArg ''b'', IntArg 2)]] [] =
     ''20e1a378bed316eab83ea0a74d6b9003'' \<and>
   generate_cache_key [DictArg [(StrArg ''b'', IntArg 2), (StrArg ''a'', IntArg 1)]] [] =
     ''695c4926c46f737e2ad251447089f46b''"
proof -
  have "set [(StrArg ''a'', IntArg 1), (StrArg ''b'', IntArg 2)] =
        set [(StrArg ''b'', IntArg 2), (StrArg ''a'', IntArg 1)]"
    by auto
  moreover have
    "generate_cache_key [DictArg [(StrArg ''a'', IntArg 1), (StrArg ''b'', IntArg 2)]] [] =
       ''20e1a378bed316eab83ea0a74d6b9003''"
    by code_simp
  moreover have
    "generate_cache_key [DictArg [(StrArg ''b'', IntArg 2), (StrArg ''a'', IntArg 1)]] [] =
       ''695c4926c46f737e2ad251447089f46b''"
    by code_simp
  ultimately show ?thesis
    by blast
qed

text \<open>
  Claim C2, amended. For positional and keyword arguments built from \<^verbatim>\<open>None\<close>, booleans,
  integers, strings, tuples, lists and dictionaries, the key is the digest of the printed
  form of the arguments: two calls whose positional arguments print alike and whose
  keyword arguments are the same items, in any order of insertion, get the same key. In
  particular the keyword arguments \<open>{a: 1, b: 2}\<close> and \<open>{b: 2, a: 1}\<close> give the same key.
\<close>

theorem generate_cache_key_kwargs_order:
  assumes "repr (TupleArg args) = repr (TupleArg args')"
    and "distinct (map fst kwargs)" and "distinct (map fst kwargs')"
    and "set kwargs = set kwargs'"
  shows "generate_cache_key args kwargs = generate_cache_key args' kwargs'"
  using assms(1) sort_key_items_unique [OF assms(2-4)]
  by (simp add: generate_cache_key_def key_string_def)

theorem generate_cache_key_kwargs_order_witness:
  "generate_cache_key [IntArg 3] [(''a'', IntArg 1), (''b'', IntArg 2)] =
     ''1769dd6afb81b1e34238c44e912b3037'' \<and>
   generate_cache_key [IntArg 3] [(''b'', IntArg 2), (''a'', IntArg 1)] =
     ''1769dd6afb81b1e34238c44e912b3037''"
proof -
  have same_args: "repr (TupleArg [IntArg 3]) = repr (TupleArg [IntArg 3])"
    by simp
  have d1: "distinct (map fst [(''a'', IntArg 1), (''b'', IntArg 2)])"
    by simp
  have d2: "distinct (map fst [(''b'', IntArg 2), (''a'', IntArg 1)])"
    by simp
  have s: "set [(''a'', IntArg 1), (''b'', IntArg 2)] = set [(''b'', IntArg 2), (''a'', IntArg 1)]"
    by auto
  have "generate_cache_key [IntArg 3] [(''a'', IntArg 1), (''b'', IntArg 2)] =
          ''1769dd6afb81b1e34238c44e912b3037''"
    by code_simp
  with generate_cache_key_kwargs_order [OF same_args d1 d2 s] show ?thesis
    by simp
qed

subsection \<open>Reading and writing one entry\<close>




text \<open>
  Claim C5, as stated, fails: a load of a key whose file does not unpickle returns
  \<^verbatim>\<open>None\<close> and logs the failure, and the file is still there afterwards.
\<close>

theorem load_from_disk_cache_corrupt_counterexample:
  "load_from_disk_cache 0 ''k'' \<lparr>files = [(''k.pkl'', Garbage :: nat node)], log = []\<rparr> =
     (PyNone, \<lparr>files = [(''k.pkl'', Garbage)], log = [LoadFailed UnpicklingError]\<rparr>)"
  by (simp add: load_from_disk_cache_def get_cache_file_path_def open_rb_load_def)

text \<open>
  Claim C5, amended. For every key whose file cannot be read (its bytes do not
  unpickle, or the name is a directory), a load logs the failure and returns \<^verbatim>\<open>None\<close>,
  and it leaves the directory as it is: the file is not deleted by the load.
\<close>

theorem load_from_disk_cache_corrupt_kept:
  assumes "map_of (files c) (get_cache_file_path key) = Some n"
    and "n = Garbage \<or> n = Subdir"
  shows "load_from_disk_cache now key c =
           (PyNone, c\<lparr>log := log c @
              [LoadFailed (if n = Garbage then UnpicklingError else IsADirectoryError)]\<rparr>)"
  using assms
  by (auto simp add: load_from_disk_cache_def open_rb_load_def)

theorem load_from_disk_cache_corrupt_kept_witness:
  "load_from_disk_cache 7 ''k'' \<lparr>files = [(''k.pkl'', Garbage :: nat node)], log = []\<rparr> =
     (PyNone, \<lparr>files = [(''k.pkl'', Garbage)], log = [LoadFailed UnpicklingError]\<rparr>)"
  using load_from_disk_cache_corrupt_kept [of
      "\<lparr>files = [(''k.pkl'', Garbage :: nat node)], log = []\<rparr>" "''k''" Garbage 7]
  by (simp add: get_cache_file_path_def)

text \<open>
  Claim C4, as stated, fails. A save whose dump is interrupted has already truncated the
  file under its final name, so the valid entry that was there is lost and a file that
  does not unpickle is left in its place. And a save under a key that is no file name
  writes nothing at all.
\<close>

theorem save_to_disk_cache_atomic_counterexample:
  "save_to_disk_cache 5 False ''k'' (DataFrame [''n''] [2::nat]) (Some 60)
     \<lparr>files = [(''k.pkl'', Pickle \<lparr>data = Some (DataFrame [''n''] [1]),
                                 timestamp = Some 0, ttl = Some 60\<rparr>)], log = []\<rparr> =
   (False, \<lparr>files = [(''k.pkl'', Garbage)], log = [SaveFailed PicklingError]\<rparr>) \<and>
   save_to_disk_cache 5 True ''2024/01/02'' (DataFrame [''n''] [2::nat]) (Some 60)
     \<lparr>files = [], log = []\<rparr> =
   (False, \<lparr>files = [], log = [SaveFailed PathError]\<rparr>)"
  by (simp add: save_to_disk_cache_def get_cache_file_path_def open_wb_def pickle_dump_def)

text \<open>
  Claim C4, amended. A save under a key whose file name is a plain file name opens the
  file in place. When that name is not a directory of the cache directory: a save whose
  dump runs to its end returns \<^verbatim>\<open>True\<close> and leaves under the key's file name the entry
  with the value, the timestamp \<open>now\<close> and the TTL (the default 3600 for \<^verbatim>\<open>None\<close> and for
  0); a save whose dump is interrupted returns \<^verbatim>\<open>False\<close> and leaves a file that does not
  unpickle under that name; no other file is touched. When the name is a directory the
  save returns \<^verbatim>\<open>False\<close> and changes no file.
\<close>

theorem save_to_disk_cache_writes:
  assumes "plain_file_name (get_cache_file_path key)"
  shows "case save_to_disk_cache now dump_ok key v ttl_arg c of
           (ok, c') \<Rightarrow>
             if map_of (files c) (get_cache_file_path key) \<noteq> Some Subdir
             then ok = dump_ok \<and>
                  map_of (files c') (get_cache_file_path key) =
                    Some (if dump_ok
                          then Pickle \<lparr>data = Some v, timestamp = Some now,
                                       ttl = Some (ttl_or_default ttl_arg)\<rparr>
                          else Garbage) \<and>
                  (\<forall>p. p \<noteq> get_cache_file_path key \<longrightarrow>
                         map_of (files c') p = map_of (files c) p)
             else \<not> ok \<and> files c' = files c"
proof (cases "map_of (files c) (get_cache_file_path key) \<noteq> Some Subdir")
  case True
  with assms have "open_wb (get_cache_file_path key) (files c) =
      Inr (write_file (get_cache_file_path key) Garbage (files c))"
    by (rule open_wb_plain)
  with True show ?thesis
    by (simp add: save_to_disk_cache_def pickle_dump_def map_of_write_file Let_def)
next
  case False
  then obtain e where "open_wb (get_cache_file_path key) (files c) = Inl e"
    using open_wb_refused by blast
  with False show ?thesis
    by (simp add: save_to_disk_cache_def Let_def)
qed

theorem save_to_disk_cache_writes_witness:
  "case save_to_disk_cache 5 True ''k'' (DataFrame [''n''] [2::nat]) (Some 0)
           \<lparr>files = [], log = []\<rparr> of
      (ok, c') \<Rightarrow> ok \<and> map_of (files c') ''k.pkl'' =
         Some (Pickle \<lparr>data = Some (DataFrame [''n''] [2]), timestamp = Some 5,
                       ttl = Some 3600\<rparr>)"
  using save_to_disk_cache_writes [where c = "\<lparr>files = ([] :: nat dir), log = []\<rparr>"
      and key = "''k''" and now = 5 and dump_ok = True and v = "DataFrame [''n''] [2::nat]"
      and ttl_arg = "Some 0"]
  by (simp add: get_cache_file_path_def ttl_or_default_def CACHE_CONFIG_ttl_def
      plain_file_name_def split: prod.splits)

subsection \<open>Fetching through the cache\<close>

text \<open>A load never adds or changes a file.\<close>

lemma load_from_disk_cache_keeps:
  assumes "map_of (files (snd (load_from_disk_cache now key c))) p = Some n"
  shows "map_of (files c) p = Some n"
  using assms
  by (auto simp add: load_from_disk_cache_def Let_def os_remove_def map_of_remove
      split: sum.splits option.splits node.splits if_splits)

text \<open>Whether the expiry test raises does not depend on the clock.\<close>

lemma expired_raises_always:
  assumes "expired t0 cd = Inl e"
  shows "expired t1 cd = Inl e"
  using assms
  by (auto simp add: expired_def split: option.splits sum.splits)

lemma expired_returns_always:
  assumes "expired t0 cd = Inr b"
  shows "\<exists>b'. expired t1 cd = Inr b'"
  using assms
  by (auto simp add: expired_def split: option.splits sum.splits)

text \<open>A key that misses keeps missing as long as nothing is written.\<close>

lemma load_from_disk_cache_miss_stable:
  assumes miss: "fst (load_from_disk_cache t0 key c) = PyNone"
    and same: "files c1 = files (snd (load_from_disk_cache t0 key c))"
  shows "fst (load_from_disk_cache t1 key c1) = PyNone"
proof (cases "map_of (files c) (get_cache_file_path key)")
  case None
  with same have "map_of (files c1) (get_cache_file_path key) = None"
    by (simp add: load_from_disk_cache_def)
  then show ?thesis
    by (simp add: load_from_disk_cache_def)
next
  case (Some n)
  show ?thesis
  proof (cases n)
    case (Pickle cd)
    show ?thesis
    proof (cases "expired t0 cd")
      case (Inl e)
      with Some Pickle same
      have "map_of (files c1) (get_cache_file_path key) = Some (Pickle cd)"
        by (simp add: load_from_disk_cache_def open_rb_load_def)
      moreover from Inl have "expired t1 cd = Inl e"
        by (rule expired_raises_always)
      ultimately show ?thesis
        by (simp add: load_from_disk_cache_def open_rb_load_def)
    next
      case (Inr b)
      show ?thesis
      proof (cases b)
        case True
        with Inr Some Pickle same have "map_of (files c1) (get_cache_file_path key) = None"
          by (simp add: load_from_disk_cache_def open_rb_load_def os_remove_def map_of_remove)
        then show ?thesis
          by (simp add: load_from_disk_cache_def)
      next
        case False
        with Inr Some Pickle miss have "data cd = None \<or> data cd = Some PyNone"
          by (simp add: load_from_disk_cache_def open_rb_load_def split: option.splits)
        moreover from False Inr Some Pickle same
        have "map_of (files c1) (get_cache_file_path key) = Some (Pickle cd)"
          by (simp add: load_from_disk_cache_def open_rb_load_def split: option.splits)
        moreover from Inr obtain b' where "expired t1 cd = Inr b'"
          using expired_returns_always by blast
        ultimately show ?thesis
          by (auto simp add: load_from_disk_cache_def open_rb_load_def os_remove_def)
      qed
    qed
  next
    case Garbage
    with Some same have "map_of (files c1) (get_cache_file_path key) = Some Garbage"
      by (simp add: load_from_disk_cache_def open_rb_load_def)
    then show ?thesis
      by (simp add: load_from_disk_cache_def open_rb_load_def)
  next
    case Subdir
    with Some same have "map_of (files c1) (get_cache_file_path key) = Some Subdir"
      by (simp add: load_from_disk_cache_def open_rb_load_def)
    then show ?thesis
      by (simp add: load_from_disk_cache_def open_rb_load_def)
  qed
qed

lemma smart_cache_query_miss:
  assumes "fst (load_from_disk_cache t_load key c) = PyNone"
  shows "smart_cache_query query_func key ttl_arg kwargs (t_load, t_save, dump_ok) (c, w) =
           (let c1 = snd (load_from_disk_cache t_load key c) in
            case query_func kwargs w of
              (Inl e, w') \<Rightarrow> (PyNone, c1\<lparr>log := log c1 @ [QueryFailed e]\<rparr>, w')
            | (Inr result, w') \<Rightarrow>
                if result \<noteq> PyNone \<and> \<not> is_empty result
                then (result,
                      snd (save_to_disk_cache t_save dump_ok key result ttl_arg c1), w')
                else (result, c1, w'))"
proof -
  obtain r c1 where l: "load_from_disk_cache t_load key c = (r, c1)"
    by (cases "load_from_disk_cache t_load key c") auto
  with assms have "r = PyNone"
    by simp
  with l show ?thesis
    by (simp add: smart_cache_query_def)
qed

lemma smart_cache_query_hit:
  assumes "map_of (files c) (get_cache_file_path key) =
             Some (Pickle \<lparr>data = Some (DataFrame cols rws), timestamp = Some ts,
                           ttl = Some tt\<rparr>)"
    and "timedelta_seconds tt = Inr delta"
    and "t_load - ts \<le> delta"
  shows "smart_cache_query query_func key ttl_arg kwargs (t_load, t_save, dump_ok) (c, w) =
           (DataFrame cols rws, c\<lparr>log := log c @ [Loaded key]\<rparr>, w)"
  using assms
  by (simp add: smart_cache_query_def load_from_disk_cache_def open_rb_load_def
      expired_def ttl_seconds_of_def)

lemma fetch_seq_hits:
  assumes "map_of (files c) (get_cache_file_path key) =
             Some (Pickle \<lparr>data = Some (DataFrame cols rws), timestamp = Some ts,
                           ttl = Some tt\<rparr>)"
    and "timedelta_seconds tt = Inr delta"
    and "\<forall>io \<in> set ios. fst io - ts \<le> delta"
  shows "fst (fetch_seq query_func key ttl_arg kwargs ios (c, w)) =
           replicate (length ios) (DataFrame cols rws) \<and>
         snd (snd (fetch_seq query_func key ttl_arg kwargs ios (c, w))) = w"
  using assms
proof (induction ios arbitrary: c)
  case Nil
  then show ?case by simp
next
  case (Cons io ios)
  obtain t_load t_save dump_ok where io: "io = (t_load, t_save, dump_ok)"
    by (cases io) auto
  from Cons.prems(3) io have "t_load - ts \<le> delta"
    by simp
  with Cons.prems(1,2) have step:
    "smart_cache_query query_func key ttl_arg kwargs io (c, w) =
       (DataFrame cols rws, c\<lparr>log := log c @ [Loaded key]\<rparr>, w)"
    unfolding io by (rule smart_cache_query_hit)
  have "fst (fetch_seq query_func key ttl_arg kwargs ios (c\<lparr>log := log c @ [Loaded key]\<rparr>, w)) =
          replicate (length ios) (DataFrame cols rws) \<and>
        snd (snd (fetch_seq query_func key ttl_arg kwargs ios
          (c\<lparr>log := log c @ [Loaded key]\<rparr>, w))) = w"
    using Cons.prems by (intro Cons.IH) simp_all
  with step show ?case
    by (simp add: split_beta)
qed

text \<open>
  Claim C1, as stated, fails. In each of the four runs below the directory is empty, the
  query function succeeds, and the same fetch is made twice within a second; the counter
  around the query function ends at 2. In the first run the TTL is \<open>10^15\<close> seconds: the
  entry is written, but the expiry test of the second load raises and the load returns
  \<^verbatim>\<open>None\<close>. In the second run the result is a frame without rows, which is not written.
  In the third run the dump of the save is interrupted. In the fourth run the key has a
  path separator and the save cannot open its file.
\<close>

theorem smart_cache_query_fetch_once_counterexample:
  "snd (snd (snd (fetch_seq
      (counted (\<lambda>(k::unit) (w::unit). (Inr (DataFrame [''n''] [1::nat]), w)))
      ''k'' (Some 1000000000000000) () [(0, 0, True), (1000000, 1000000, True)]
      (\<lparr>files = [], log = []\<rparr>, ((), 0))))) = 2 \<and>
   snd (snd (snd (fetch_seq
      (counted (\<lambda>(k::unit) (w::unit). (Inr (DataFrame [''n''] ([] :: nat list)), w)))
      ''k'' (Some 60) () [(0, 0, True), (1000000, 1000000, True)]
      (\<lparr>files = [], log = []\<rparr>, ((), 0))))) = 2 \<and>
   snd (snd (snd (fetch_seq
      (counted (\<lambda>(k::unit) (w::unit). (Inr (DataFrame [''n''] [1::nat]), w)))
      ''k'' (Some 60) () [(0, 0, False), (1000000, 1000000, False)]
      (\<lparr>files = [], log = []\<rparr>, ((), 0))))) = 2 \<and>
   snd (snd (snd (fetch_seq
      (counted (\<lambda>(k::unit) (w::unit). (Inr (DataFrame [''n''] [1::nat]), w)))
      ''2024/01/02'' (Some 60) () [(0, 0, True), (1000000, 1000000, True)]
      (\<lparr>files = [], log = []\<rparr>, ((), 0))))) = 2"
  by (simp add: smart_cache_query_def counted_def load_from_disk_cache_def
      save_to_disk_cache_def get_cache_file_path_def open_wb_def pickle_dump_def
      open_rb_load_def expired_def ttl_seconds_of_def ttl_or_default_def
      timedelta_seconds_def)

text \<open>
  Claim C1, amended. Take a fetch that misses the cache, whose query function returns a
  frame with at least one row, whose TTL (the default when none is given) is in the
  range of \<^verbatim>\<open>timedelta\<close>, and whose save succeeds: the key's file name is a plain file
  name and not a directory, and the dump runs to its end. Then every later fetch with
  the same key and arguments, at a time no later than the stored timestamp plus the
  TTL, returns that frame, and the query function has been called exactly once over the
  whole sequence: the counter around it ends at 1.
\<close>

theorem smart_cache_query_fetch_once:
  assumes cold: "fst (load_from_disk_cache t0 key c) = PyNone"
    and fetched: "query_func kwargs w = (Inr (DataFrame cols rws), w1)"
    and cacheable: "rws \<noteq> []"
    and in_range: "timedelta_seconds (ttl_or_default ttl_arg) = Inr delta"
    and name: "plain_file_name (get_cache_file_path key)"
    and writable: "map_of (files c) (get_cache_file_path key) \<noteq> Some Subdir"
    and window: "\<forall>io \<in> set later. fst io - t_save \<le> delta"
  shows "case fetch_seq (counted query_func) key ttl_arg kwargs
                ((t0, t_save, True) # later) (c, (w, 0)) of
           (results, c', (w', calls)) \<Rightarrow>
             results = replicate (Suc (length later)) (DataFrame cols rws) \<and>
             w' = w1 \<and> calls = 1"
proof -
  let ?c1 = "snd (load_from_disk_cache t0 key c)"
  let ?c2 = "snd (save_to_disk_cache t_save True key (DataFrame cols rws) ttl_arg ?c1)"
  let ?entry = "Pickle \<lparr>data = Some (DataFrame cols rws), timestamp = Some t_save,
                         ttl = Some (ttl_or_default ttl_arg)\<rparr>"
  from fetched have counted_call:
    "counted query_func kwargs (w, 0) = (Inr (DataFrame cols rws), (w1, Suc 0))"
    by (simp add: counted_def)
  from cacheable have first:
    "smart_cache_query (counted query_func) key ttl_arg kwargs (t0, t_save, True) (c, (w, 0)) =
       (DataFrame cols rws, ?c2, (w1, Suc 0))"
    by (simp add: smart_cache_query_miss [OF cold] counted_call)
  from writable have "map_of (files ?c1) (get_cache_file_path key) \<noteq> Some Subdir"
    using load_from_disk_cache_keeps by blast
  with name have stored: "map_of (files ?c2) (get_cache_file_path key) = Some ?entry"
    by (rule save_to_disk_cache_stored)
  have rest:
    "fst (fetch_seq (counted query_func) key ttl_arg kwargs later (?c2, (w1, Suc 0))) =
       replicate (length later) (DataFrame cols rws) \<and>
     snd (snd (fetch_seq (counted query_func) key ttl_arg kwargs later (?c2, (w1, Suc 0)))) =
       (w1, Suc 0)"
    using stored in_range window by (rule fetch_seq_hits)
  from first rest show ?thesis
    by (simp add: split_beta)
qed

theorem smart_cache_query_fetch_once_witness:
  "case fetch_seq (counted (\<lambda>(k::unit) (w::unit). (Inr (DataFrame [''n''] [1::nat]), w)))
          ''k'' None () [(0, 0, True), (10, 11, True), (3600000000, 0, False)]
          (\<lparr>files = [], log = []\<rparr>, ((), 0)) of
     (results, c', (w', calls)) \<Rightarrow>
       results = [DataFrame [''n''] [1], DataFrame [''n''] [1], DataFrame [''n''] [1]] \<and>
       calls = 1"
  using smart_cache_query_fetch_once [where c = "\<lparr>files = ([] :: nat dir), log = []\<rparr>"
      and query_func = "\<lambda>(k::unit) (w::unit). (Inr (DataFrame [''n''] [1::nat]), w)"
      and key = "''k''" and kwargs = "()" and w = "()" and ?w1.0 = "()" and ?t0.0 = 0
      and t_save = 0 and ttl_arg = None and cols = "[''n'']" and rws = "[1]"
      and delta = 3600000000
      and later = "[(10, 11, True), (3600000000, 0, False)]"]
  by (simp add: load_from_disk_cache_def ttl_or_default_def CACHE_CONFIG_ttl_def
      timedelta_seconds_def plain_file_name_def get_cache_file_path_def)

text \<open>
  Claim C8. Take a fetch that misses the cache and whose query function raises. It
  returns \<^verbatim>\<open>None\<close> after one call of the query function, and it writes nothing: every
  file present afterwards was there before with the same content. A later fetch with
  the same key and arguments, at any time, calls the query function again: the counter
  around it goes from \<open>n\<close> to \<open>n + 1\<close> and then to \<open>n + 2\<close>.
\<close>

theorem smart_cache_query_failure_not_cached:
  assumes cold: "fst (load_from_disk_cache t0 key c) = PyNone"
    and raises: "query_func kwargs w = (Inl e, w1)"
  shows "case smart_cache_query (counted query_func) key ttl_arg kwargs
                (t0, ts0, ok0) (c, (w, n)) of
           (r, c1, wn1) \<Rightarrow>
             r = PyNone \<and> wn1 = (w1, Suc n) \<and>
             (\<forall>p nd. map_of (files c1) p = Some nd \<longrightarrow> map_of (files c) p = Some nd) \<and>
             snd (snd (snd (smart_cache_query (counted query_func) key ttl_arg kwargs
                              (t1, ts1, ok1) (c1, wn1)))) = Suc (Suc n)"
proof -
  let ?c0 = "snd (load_from_disk_cache t0 key c)"
  let ?c1 = "?c0\<lparr>log := log ?c0 @ [QueryFailed e]\<rparr>"
  from raises have call: "counted query_func kwargs (w, n) = (Inl e, (w1, Suc n))"
    by (simp add: counted_def)
  have first:
    "smart_cache_query (counted query_func) key ttl_arg kwargs (t0, ts0, ok0) (c, (w, n)) =
       (PyNone, ?c1, (w1, Suc n))"
    by (simp add: smart_cache_query_miss [OF cold] call Let_def)
  have kept: "\<forall>p nd. map_of (files ?c1) p = Some nd \<longrightarrow> map_of (files c) p = Some nd"
    using load_from_disk_cache_keeps [of t0 key c] by simp
  have "files ?c1 = files ?c0"
    by simp
  with cold have miss2: "fst (load_from_disk_cache t1 key ?c1) = PyNone"
    by (rule load_from_disk_cache_miss_stable)
  have again:
    "snd (snd (snd (smart_cache_query (counted query_func) key ttl_arg kwargs
                      (t1, ts1, ok1) (?c1, (w1, Suc n))))) = Suc (Suc n)"
    by (simp add: smart_cache_query_miss [OF miss2] counted_def Let_def
        split: prod.splits sum.splits)
  from first kept again show ?thesis
    by simp
qed

theorem smart_cache_query_failure_not_cached_witness:
  "case smart_cache_query
          (counted (\<lambda>(k::unit) (w::unit). (Inl (QueryError ''timeout'') :: exn + nat pyval, w)))
          ''k'' (Some 60) () (0, 1, True) (\<lparr>files = [], log = []\<rparr>, ((), 0)) of
     (r, c1, wn1) \<Rightarrow>
       r = PyNone \<and> wn1 = ((), 1) \<and> map_of (files c1) ''k.pkl'' = None \<and>
       snd (snd (snd (smart_cache_query
          (counted (\<lambda>(k::unit) (w::unit). (Inl (QueryError ''timeout'') :: exn + nat pyval, w)))
          ''k'' (Some 60) () (2, 3, True) (c1, wn1)))) = 2"
  using smart_cache_query_failure_not_cached [where c = "\<lparr>files = ([] :: nat dir), log = []\<rparr>"
      and query_func = "\<lambda>(k::unit) (w::unit). (Inl (QueryError ''timeout'') :: exn + nat pyval, w)"
      and key = "''k''" and kwargs = "()" and w = "()" and ?w1.0 = "()" and ?t0.0 = 0
      and e = "QueryError ''timeout''" and ttl_arg = "Some 60" and ?ts0.0 = 1 and ?ok0.0 = True
      and n = 0 and ?t1.0 = 2 and ?ts1.0 = 3 and ?ok1.0 = True]
  by (auto simp add: load_from_disk_cache_def split: prod.splits)

text \<open>
  Claim C9, as stated, fails. A query function that returns an empty frame has its
  result handed back, but nothing is written to the cache, whereas a frame with a row is
  written. A query function that raises and one that returns \<^verbatim>\<open>None\<close> give the caller
  the same value \<^verbatim>\<open>None\<close>.
\<close>

theorem smart_cache_query_three_states_counterexample:
  "files (fst (snd (smart_cache_query
      (\<lambda>(k::unit) (w::unit). (Inr (DataFrame [''n''] ([] :: nat list)), w))
      ''k'' None () (0, 0, True) (\<lparr>files = [], log = []\<rparr>, ())))) = [] \<and>
   files (fst (snd (smart_cache_query
      (\<lambda>(k::unit) (w::unit). (Inr (DataFrame [''n''] [1::nat]), w))
      ''k'' None () (0, 0, True) (\<lparr>files = [], log = []\<rparr>, ())))) \<noteq> [] \<and>
   fst (smart_cache_query
      (\<lambda>(k::unit) (w::unit). (Inl (QueryError ''timeout'') :: exn + nat pyval, w))
      ''k'' None () (0, 0, True) (\<lparr>files = [], log = []\<rparr>, ())) =
   fst (smart_cache_query
      (\<lambda>(k::unit) (w::unit). (Inr PyNone :: exn + nat pyval, w))
      ''k'' None () (0, 0, True) (\<lparr>files = [], log = []\<rparr>, ()))"
  by (simp add: smart_cache_query_def load_from_disk_cache_def save_to_disk_cache_def
      get_cache_file_path_def open_wb_def pickle_dump_def)

text \<open>
  Claim C9, amended. For every fetch that misses the cache: a frame returned by the
  query function is handed back as it is, so an empty frame reaches the caller as an
  empty frame and not as \<^verbatim>\<open>None\<close>, but an empty frame is not written to the cache; an
  exception of the query function is logged and the caller receives \<^verbatim>\<open>None\<close>, the value
  it also receives when the query function returns \<^verbatim>\<open>None\<close>, and in both cases nothing
  is written.
\<close>

theorem smart_cache_query_three_states:
  assumes cold: "load_from_disk_cache t0 key c = (PyNone, c0)"
  shows "case query_func kwargs w of
           (outcome, w') \<Rightarrow>
             (case smart_cache_query query_func key ttl_arg kwargs (t0, ts, ok) (c, w) of
                (r, c1, w1) \<Rightarrow>
                  w1 = w' \<and>
                  (case outcome of
                     Inl e \<Rightarrow> r = PyNone \<and> c1 = c0\<lparr>log := log c0 @ [QueryFailed e]\<rparr>
                   | Inr PyNone \<Rightarrow> r = PyNone \<and> c1 = c0
                   | Inr (DataFrame cols rws) \<Rightarrow>
                       r = DataFrame cols rws \<and> (rws = [] \<longrightarrow> c1 = c0)))"
  using cold
  by (simp add: smart_cache_query_def split: prod.splits sum.splits pyval.splits)

theorem smart_cache_query_three_states_witness:
  "load_from_disk_cache 0 ''k'' \<lparr>files = ([] :: nat dir), log = []\<rparr> =
     (PyNone, \<lparr>files = [], log = []\<rparr>) \<and>
   smart_cache_query (\<lambda>(k::unit) (w::unit). (Inr (DataFrame [''n''] ([] :: nat list)), w))
      ''k'' None () (0, 0, True) (\<lparr>files = [], log = []\<rparr>, ()) =
     (DataFrame [''n''] [], \<lparr>files = [], log = []\<rparr>, ())"
  using smart_cache_query_three_states [where c = "\<lparr>files = ([] :: nat dir), log = []\<rparr>"
      and ?c0.0 = "\<lparr>files = ([] :: nat dir), log = []\<rparr>" and key = "''k''" and ?t0.0 = 0
      and query_func = "\<lambda>(k::unit) (w::unit). (Inr (DataFrame [''n''] ([] :: nat list)), w)"
      and kwargs = "()" and w = "()" and ttl_arg = None and ts = 0 and ok = True]
  by (auto simp add: load_from_disk_cache_def split: prod.splits)

text \<open>
  \<^verbatim>\<open>execute_query\<close>, the query function of the dashboard, answers a failure with
  \<^verbatim>\<open>None\<close> and an empty result with the empty polars frame.
\<close>

lemma execute_query_results:
  "execute_query False use_polars job = NoResult"
  "execute_query True use_polars (Inl e) = NoResult"
  "execute_query True True (Inr (cols, [])) = PolarsFrame [] []"
  "execute_query True False (Inr (cols, rws)) = PandasFrame cols rws"
  by (simp_all add: execute_query_def)

subsection \<open>The sweep\<close>

lemma sweep_entry_absent:
  "map_of fs name = None \<Longrightarrow> sweep_entry t name fs = Inl FileNotFoundError"
  by (simp add: sweep_entry_def sweep_try_def open_rb_load_def os_remove_def)

lemma sweep_entry_subdir:
  "map_of fs name = Some Subdir \<Longrightarrow> sweep_entry t name fs = Inl IsADirectoryError"
  by (simp add: sweep_entry_def sweep_try_def open_rb_load_def os_remove_def)

lemma sweep_entry_garbage:
  "map_of fs name = Some Garbage \<Longrightarrow>
     sweep_entry t name fs = Inr (filter (\<lambda>entry. fst entry \<noteq> name) fs, 1)"
  by (simp add: sweep_entry_def sweep_try_def open_rb_load_def os_remove_def)

lemma sweep_entry_pickle:
  "map_of fs name = Some (Pickle cd) \<Longrightarrow>
     sweep_entry t name fs =
       (if expired t cd = Inr False then Inr (fs, 0)
        else Inr (filter (\<lambda>entry. fst entry \<noteq> name) fs, 1))"
  by (simp add: sweep_entry_def sweep_try_def open_rb_load_def os_remove_def
      split: sum.splits)

text \<open>
  One step of the loop that does not raise either keeps the directory, on a readable
  entry whose expiry test says it has not expired, or removes the name and counts it.
\<close>

lemma sweep_entry_Inr:
  assumes "sweep_entry t name fs = Inr (fs', k)"
  shows "(fs' = fs \<and> k = 0 \<and>
          (\<exists>cd. map_of fs name = Some (Pickle cd) \<and> expired t cd = Inr False)) \<or>
         (fs' = filter (\<lambda>entry. fst entry \<noteq> name) fs \<and> k = 1 \<and> map_of fs name \<noteq> None)"
proof (cases "map_of fs name")
  case None
  with assms show ?thesis
    by (simp add: sweep_entry_absent)
next
  case (Some n)
  with assms show ?thesis
    by (cases n)
      (auto simp add: sweep_entry_subdir sweep_entry_garbage sweep_entry_pickle
        split: if_splits)
qed


text \<open>What the loop leaves is the directory without the entries of a set of names.\<close>

lemma sweep_loop_removes:
  "\<exists>S. fst (sweep_loop now names fs k) = filter (\<lambda>entry. fst entry \<notin> S) fs"
proof (induction names arbitrary: fs k)
  case Nil
  have "fst (sweep_loop now [] fs k) = filter (\<lambda>entry. fst entry \<notin> {}) fs"
    by simp
  then show ?case ..
next
  case (Cons name names)
  show ?case
  proof (cases "sweep_entry (now name) name fs")
    case (Inl e)
    then have "fst (sweep_loop now (name # names) fs k) = filter (\<lambda>entry. fst entry \<notin> {}) fs"
      by simp
    then show ?thesis ..
  next
    case (Inr r)
    obtain fs1 j where r: "r = (fs1, j)"
      by (cases r) auto
    from Cons.IH obtain S where
      S: "fst (sweep_loop now names fs1 (k + j)) = filter (\<lambda>entry. fst entry \<notin> S) fs1"
      by blast
    from Inr r have "fs1 = fs \<or> fs1 = filter (\<lambda>entry. fst entry \<noteq> name) fs"
      using sweep_entry_Inr by blast
    then show ?thesis
    proof
      assume "fs1 = fs"
      with Inr r S have "fst (sweep_loop now (name # names) fs k) =
          filter (\<lambda>entry. fst entry \<notin> S) fs"
        by simp
      then show ?thesis ..
    next
      assume "fs1 = filter (\<lambda>entry. fst entry \<noteq> name) fs"
      with S have "fst (sweep_loop now names fs1 (k + j)) =
          filter (\<lambda>entry. fst entry \<notin> insert name S) fs"
        by (simp add: conj_commute)
      with Inr r have "fst (sweep_loop now (name # names) fs k) =
          filter (\<lambda>entry. fst entry \<notin> insert name S) fs"
        by simp
      then show ?thesis ..
    qed
  qed
qed

lemma sweep_loop_distinct:
  assumes "distinct (map fst fs)"
  shows "distinct (map fst (fst (sweep_loop now names fs k)))"
proof -
  from sweep_loop_removes obtain S where
    "fst (sweep_loop now names fs k) = filter (\<lambda>entry. fst entry \<notin> S) fs"
    by blast
  with assms show ?thesis
    by (simp add: distinct_map_filter)
qed

lemma sweep_loop_subset:
  "set (fst (sweep_loop now names fs k)) \<subseteq> set fs"
proof -
  from sweep_loop_removes obtain S where
    "fst (sweep_loop now names fs k) = filter (\<lambda>entry. fst entry \<notin> S) fs"
    by blast
  then show ?thesis
    by auto
qed

lemma map_of_filter_names:
  "map_of (filter (\<lambda>entry. fst entry \<notin> S) fs) p = (if p \<in> S then None else map_of fs p)"
  by (induction fs) auto

lemma sweep_loop_lookup:
  "map_of (fst (sweep_loop now names fs k)) p = None \<or>
   map_of (fst (sweep_loop now names fs k)) p = map_of fs p"
proof -
  from sweep_loop_removes obtain S where
    "fst (sweep_loop now names fs k) = filter (\<lambda>entry. fst entry \<notin> S) fs"
    by blast
  then show ?thesis
    by (simp add: map_of_filter_names)
qed


text \<open>
  After a loop that ran to its end, a name it examined is gone or holds a readable entry
  that had not expired when it was examined.
\<close>

lemma sweep_loop_examined:
  assumes "sweep_loop now names fs k = (fs', Inr m)" and "f \<in> set names"
  shows "map_of fs' f = None \<or>
         (\<exists>cd. map_of fs' f = Some (Pickle cd) \<and> expired (now f) cd = Inr False)"
  using assms
proof (induction names arbitrary: fs k)
  case Nil
  then show ?case by simp
next
  case (Cons name names)
  from Cons.prems(1) obtain fs1 j where
    entry: "sweep_entry (now name) name fs = Inr (fs1, j)"
    and rest: "sweep_loop now names fs1 (k + j) = (fs', Inr m)"
    by (auto split: sum.splits prod.splits)
  show ?case
  proof (cases "f \<in> set names")
    case True
    with Cons.IH [OF rest] show ?thesis
      by simp
  next
    case False
    with Cons.prems(2) have f: "f = name"
      by simp
    from entry have after:
      "map_of fs1 f = None \<or>
       (\<exists>cd. map_of fs1 f = Some (Pickle cd) \<and> expired (now f) cd = Inr False)"
      using sweep_entry_Inr [OF entry] f by (auto simp add: map_of_remove)
    from sweep_loop_lookup [of now names fs1 "k + j" f] rest
    have "map_of fs' f = None \<or> map_of fs' f = map_of fs1 f"
      by simp
    with after show ?thesis
      by auto
  qed
qed










text \<open>
  The statistics: one file on which \<^verbatim>\<open>os.path.getsize\<close> raises ends the whole pass with
  the empty result, whereas a file that cannot be read is only skipped by the count.
\<close>

lemma sum_sizes_raises:
  assumes "f \<in> set names" and "getsize f = Inl e"
  shows "\<exists>e'. sum_sizes getsize names = Inl e'"
  using assms
  by (induction names) (auto split: sum.splits)

lemma get_cache_stats_aborts:
  assumes "f \<in> set (listdir_pkl (files c))" and "getsize f = Inl e"
  shows "fst (get_cache_stats now getsize c) = None"
  using assms sum_sizes_raises [where f = f and names = "listdir_pkl (files c)"
      and getsize = getsize and e = e]
  by (auto simp add: get_cache_stats_def Let_def)

lemma count_valid_skips:
  assumes "map_of fs name = Some Garbage \<or> map_of fs name = Some Subdir"
  shows "count_valid now (name # names) fs valid = count_valid now names fs valid"
  using assms
  by (auto simp add: open_rb_load_def)






text \<open>
  Claim C7 at a failing input: the cache directory lists a subdirectory \<^verbatim>\<open>a.pkl\<close> before
  an expired entry \<^verbatim>\<open>b.pkl\<close>. Reading \<^verbatim>\<open>a.pkl\<close> raises, the handler's \<^verbatim>\<open>os.remove\<close> raises
  again, and the sweep ends there: \<^verbatim>\<open>b.pkl\<close> is never examined and stays. The statistics
  pass over the same directory skips \<^verbatim>\<open>a.pkl\<close> and goes on to \<^verbatim>\<open>b.pkl\<close>.
\<close>

theorem clear_expired_cache_aborts:
  "clear_expired_cache (\<lambda>f. 10000000)
     \<lparr>files = [(''a.pkl'', Subdir),
               (''b.pkl'', Pickle \<lparr>data = Some (DataFrame [''n''] [1::nat]),
                                   timestamp = Some 0, ttl = Some 1\<rparr>)],
      log = []\<rparr> =
   \<lparr>files = [(''a.pkl'', Subdir),
             (''b.pkl'', Pickle \<lparr>data = Some (DataFrame [''n''] [1::nat]),
                                 timestamp = Some 0, ttl = Some 1\<rparr>)],
    log = [ClearFailed IsADirectoryError]\<rparr> \<and>
   get_cache_stats (\<lambda>f. 500000) (\<lambda>f. Inr 4096)
     \<lparr>files = [(''a.pkl'', Subdir),
               (''b.pkl'', Pickle \<lparr>data = Some (DataFrame [''n''] [1::nat]),
                                   timestamp = Some 0, ttl = Some 1\<rparr>)],
      log = []\<rparr> =
   (Some \<lparr>total_files = 2, valid_files = 1, total_size = 8192\<rparr>,
    \<lparr>files = [(''a.pkl'', Subdir),
              (''b.pkl'', Pickle \<lparr>data = Some (DataFrame [''n''] [1::nat]),
                                  timestamp = Some 0, ttl = Some 1\<rparr>)],
     log = []\<rparr>)"
  by (simp add: clear_expired_cache_def listdir_pkl_def endswith_def sweep_entry_subdir
      get_cache_stats_def open_rb_load_def unexpired_def ttl_seconds_of_def
      timedelta_seconds_def)

end
